theory Spec2Isabelle
  imports Main "HOL-Library.Word"
begin

section \<open>The ArtAuction\_Z contract: data model\<close>

text \<open>
  The contract is the Solidity source \<^verbatim>\<open>contract ArtAuction_Z\<close>. Its integers are machine
  words: \<^verbatim>\<open>uint256\<close> timestamps, \<^verbatim>\<open>uint32\<close> plaintext amounts, 160-bit addresses and
  256-bit ciphertext handles (\<^verbatim>\<open>euint32\<close> and \<^verbatim>\<open>externalEuint32\<close> wrap a \<^verbatim>\<open>bytes32\<close>).
  Comparison on words is the unsigned one, as in Solidity.
\<close>

type_synonym address = "160 word"
type_synonym uint256 = "256 word"
type_synonym uint32 = "32 word"
type_synonym bytes32 = "256 word"
type_synonym euint32 = "256 word"
type_synonym bytes = "8 word list"

text \<open>\<^verbatim>\<open>struct Bid\<close> (lines 7-13).\<close>

record Bid =
  bidder :: address
  encryptedBidAmount :: euint32
  timestamp :: uint256
  isDecrypted :: bool
  decryptedBidAmount :: uint32

text \<open>
  \<^verbatim>\<open>struct Auction\<close> (lines 15-24). A Solidity mapping is total: a key never written
  reads as the all-zero value, so \<^verbatim>\<open>bids\<close> is a function from addresses to records.
\<close>

record Auction =
  nftTokenId :: string
  startTime :: uint256
  endTime :: uint256
  highestBidder :: address
  highestBidAmount :: uint32
  isActive :: bool
  bids :: "address \<Rightarrow> Bid"
  bidders :: "address list"

text \<open>The contract's storage (lines 26-27).\<close>

record Contract =
  auctions :: "string \<Rightarrow> Auction"
  auctionIds :: "string list"

text \<open>The zero values storage holds before anything is written.\<close>

definition zeroBid :: Bid where
  "zeroBid = \<lparr>bidder = 0, encryptedBidAmount = 0, timestamp = 0, isDecrypted = False,
     decryptedBidAmount = 0\<rparr>"

definition zeroAuction :: Auction where
  "zeroAuction = \<lparr>nftTokenId = [], startTime = 0, endTime = 0, highestBidder = 0,
     highestBidAmount = 0, isActive = False, bids = (\<lambda>_. zeroBid), bidders = []\<rparr>"

definition deployed :: Contract where
  "deployed = \<lparr>auctions = (\<lambda>_. zeroAuction), auctionIds = []\<rparr>"

text \<open>The part of the transaction context the contract reads.\<close>

record Env =
  msg_sender :: address
  block_timestamp :: uint256

text \<open>
  Every \<^verbatim>\<open>require\<close> that fails reverts the transaction. The revert reasons of the source,
  under the names of the error taxonomy:
  \<^item> \<open>AlreadyExists\<close>: "Auction already exists";
  \<^item> \<open>NotFound\<close>: "Auction does not exist";
  \<^item> \<open>InvalidTimeWindow\<close>: "Start time must be in future", "End time must be after start time";
  \<^item> \<open>InactiveWindow\<close>: "Auction not active" (both requirements of the modifier);
  \<^item> \<open>InvalidCiphertext\<close>: "Invalid encrypted input", or \<^verbatim>\<open>FHE.fromExternal\<close> reverting;
  \<^item> \<open>DuplicateBid\<close>: "Bid already placed";
  \<^item> \<open>AuctionNotEnded\<close>: "Auction not ended";
  \<^item> \<open>AlreadyDecrypted\<close>: "Bid already decrypted";
  \<^item> \<open>InvalidProof\<close>: \<^verbatim>\<open>FHE.checkSignatures\<close> reverting;
  \<^item> \<open>AbiDecodeError\<close>: \<^verbatim>\<open>abi.decode\<close> reverting on a malformed clear value;
  \<^item> \<open>AlreadyFinalized\<close>: "Auction already finalized";
  \<^item> \<open>NoValidBids\<close>: "No valid bids".
\<close>

datatype error =
    AlreadyExists | NotFound | InvalidTimeWindow | InactiveWindow | InvalidCiphertext
  | DuplicateBid | AuctionNotEnded | AlreadyDecrypted | InvalidProof | AbiDecodeError
  | AlreadyFinalized | NoValidBids

section \<open>The encryption library, as far as the contract uses it\<close>

text \<open>
  The fhevm library is imported by the contract and is not part of it. Its two
  verification primitives are parameters of the model:
  \<^item> \<open>fromExternal h p\<close> is \<^verbatim>\<open>FHE.fromExternal(h, p)\<close>: the handle of the verified
    input, or \<open>None\<close> when the library reverts;
  \<^item> \<open>checkSignatures cts clear p\<close> is whether \<^verbatim>\<open>FHE.checkSignatures(cts, clear, p)\<close>
    returns (it reverts otherwise).
\<close>

record FHE =
  fromExternal :: "bytes32 \<Rightarrow> bytes \<Rightarrow> euint32 option"
  checkSignatures :: "bytes32 list \<Rightarrow> bytes \<Rightarrow> bytes \<Rightarrow> bool"

text \<open>
  \<^verbatim>\<open>FHE.isInitialized\<close> tests a handle against the zero handle, the test line 74 writes
  as \<^verbatim>\<open>== euint32(0)\<close>; \<^verbatim>\<open>FHE.toBytes32\<close> unwraps a handle.
\<close>

definition isInitialized :: "euint32 \<Rightarrow> bool" where
  "isInitialized h = (h \<noteq> 0)"

definition toBytes32 :: "euint32 \<Rightarrow> bytes32" where
  "toBytes32 h = h"

text \<open>
  \<^verbatim>\<open>abi.decode(data, (uint32))\<close>: the first 32 bytes are one big-endian word; the
  decoder reverts on fewer than 32 bytes and on a word that does not fit 32 bits.
\<close>

definition be_nat :: "bytes \<Rightarrow> nat" where
  "be_nat bs = foldl (\<lambda>acc b. acc * 256 + unat b) 0 bs"

definition abi_decode_uint32 :: "bytes \<Rightarrow> uint32 option" where
  "abi_decode_uint32 data =
     (if length data < 32 then None
      else let n = be_nat (take 32 data)
           in if n < 2 ^ 32 then Some (of_nat n) else None)"

section \<open>The operations\<close>

text \<open>
  Each operation takes the storage and returns the new storage, or the error of the first
  requirement that fails. The events the operations emit and the access-control calls
  \<^verbatim>\<open>FHE.allowThis\<close> and \<^verbatim>\<open>FHE.makePubliclyDecryptable\<close> of \<^verbatim>\<open>placeBid\<close> write nothing
  to the contract's storage and are left out.
\<close>

text \<open>The existence test every operation uses: a stored item reference is not empty.\<close>

definition auctionExists :: "Contract \<Rightarrow> string \<Rightarrow> bool" where
  "auctionExists s auctionId = (length (nftTokenId (auctions s auctionId)) > 0)"

text \<open>
  \<^verbatim>\<open>createAuction\<close> (lines 43-64). The struct literal names six members; \<^verbatim>\<open>bids\<close> and
  \<^verbatim>\<open>bidders\<close> are not among them and keep what the slot holds.
\<close>

definition createAuction ::
  "Env \<Rightarrow> Contract \<Rightarrow> string \<Rightarrow> string \<Rightarrow> uint256 \<Rightarrow> uint256 \<Rightarrow> error + Contract" where
  "createAuction e s auctionId nft start_time end_time =
     (if length (nftTokenId (auctions s auctionId)) \<noteq> 0 then Inl AlreadyExists
      else if \<not> (start_time \<ge> block_timestamp e) then Inl InvalidTimeWindow
      else if \<not> (end_time > start_time) then Inl InvalidTimeWindow
      else Inr (s\<lparr>auctions := (auctions s)(auctionId := (auctions s auctionId)
                     \<lparr>nftTokenId := nft, startTime := start_time, endTime := end_time,
                      highestBidder := 0, highestBidAmount := 0, isActive := True\<rparr>),
                 auctionIds := auctionIds s @ [auctionId]\<rparr>))"

text \<open>The modifier \<^verbatim>\<open>auctionOngoing\<close> (lines 34-39): the first requirement that fails.\<close>

definition auctionOngoing :: "Env \<Rightarrow> Contract \<Rightarrow> string \<Rightarrow> error option" where
  "auctionOngoing e s auctionId =
     (if \<not> length (nftTokenId (auctions s auctionId)) > 0 then Some NotFound
      else if \<not> (block_timestamp e \<ge> startTime (auctions s auctionId)
                \<and> block_timestamp e \<le> endTime (auctions s auctionId)) then Some InactiveWindow
      else if \<not> isActive (auctions s auctionId) then Some InactiveWindow
      else None)"

text \<open>
  \<^verbatim>\<open>placeBid\<close> (lines 66-90). Line 76 repeats the call \<^verbatim>\<open>FHE.fromExternal\<close> of line 71 on
  the same arguments and stores the handle it returns.
\<close>

definition placeBid ::
  "FHE \<Rightarrow> Env \<Rightarrow> Contract \<Rightarrow> string \<Rightarrow> bytes32 \<Rightarrow> bytes \<Rightarrow> error + Contract" where
  "placeBid fhe e s auctionId encryptedBid inputProof =
     (case auctionOngoing e s auctionId of
        Some err \<Rightarrow> Inl err
      | None \<Rightarrow>
         (case fromExternal fhe encryptedBid inputProof of
            None \<Rightarrow> Inl InvalidCiphertext
          | Some h \<Rightarrow>
             if \<not> isInitialized h then Inl InvalidCiphertext
             else let auction = auctions s auctionId in
               if \<not> encryptedBidAmount (bids auction (msg_sender e)) = 0 then Inl DuplicateBid
               else Inr (s\<lparr>auctions := (auctions s)(auctionId := auction
                         \<lparr>bids := (bids auction)(msg_sender e :=
                             \<lparr>bidder = msg_sender e, encryptedBidAmount = h,
                              timestamp = block_timestamp e, isDecrypted = False,
                              decryptedBidAmount = 0\<rparr>),
                          bidders := bidders auction @ [msg_sender e]\<rparr>)\<rparr>)))"

text \<open>\<^verbatim>\<open>decryptBid\<close> (lines 92-118), the reveal.\<close>

definition decryptBid ::
  "FHE \<Rightarrow> Env \<Rightarrow> Contract \<Rightarrow> string \<Rightarrow> bytes \<Rightarrow> bytes \<Rightarrow> error + Contract" where
  "decryptBid fhe e s auctionId abiEncodedClearValue decryptionProof =
     (if \<not> length (nftTokenId (auctions s auctionId)) > 0 then Inl NotFound
      else if \<not> block_timestamp e > endTime (auctions s auctionId) then Inl AuctionNotEnded
      else let auction = auctions s auctionId; bid = bids auction (msg_sender e) in
        if isDecrypted bid then Inl AlreadyDecrypted
        else if \<not> checkSignatures fhe [toBytes32 (encryptedBidAmount bid)]
                    abiEncodedClearValue decryptionProof then Inl InvalidProof
        else (case abi_decode_uint32 abiEncodedClearValue of
                None \<Rightarrow> Inl AbiDecodeError
              | Some amount \<Rightarrow>
                 let bid' = bid\<lparr>decryptedBidAmount := amount, isDecrypted := True\<rparr>;
                     auction' = auction\<lparr>bids := (bids auction)(msg_sender e := bid')\<rparr>;
                     auction'' =
                       (if amount > highestBidAmount auction'
                        then auction'\<lparr>highestBidAmount := amount, highestBidder := msg_sender e\<rparr>
                        else auction')
                 in Inr (s\<lparr>auctions := (auctions s)(auctionId := auction'')\<rparr>)))"

text \<open>\<^verbatim>\<open>finalizeAuction\<close> (lines 120-130).\<close>

definition finalizeAuction :: "Env \<Rightarrow> Contract \<Rightarrow> string \<Rightarrow> error + Contract" where
  "finalizeAuction e s auctionId =
     (if \<not> length (nftTokenId (auctions s auctionId)) > 0 then Inl NotFound
      else if \<not> block_timestamp e > endTime (auctions s auctionId) then Inl AuctionNotEnded
      else if \<not> isActive (auctions s auctionId) then Inl AlreadyFinalized
      else let auction = auctions s auctionId in
        if \<not> highestBidder auction \<noteq> 0 then Inl NoValidBids
        else Inr (s\<lparr>auctions := (auctions s)(auctionId := auction\<lparr>isActive := False\<rparr>)\<rparr>))"

text \<open>The views (lines 132-177).\<close>

definition getAuctionDetails ::
  "Contract \<Rightarrow> string \<Rightarrow> error + (string \<times> uint256 \<times> uint256 \<times> address \<times> uint32 \<times> bool)" where
  "getAuctionDetails s auctionId =
     (if \<not> length (nftTokenId (auctions s auctionId)) > 0 then Inl NotFound
      else let auction = auctions s auctionId in
        Inr (nftTokenId auction, startTime auction, endTime auction, highestBidder auction,
             highestBidAmount auction, isActive auction))"

definition getBid ::
  "Contract \<Rightarrow> string \<Rightarrow> address \<Rightarrow> error + (euint32 \<times> uint256 \<times> bool \<times> uint32)" where
  "getBid s auctionId a =
     (if \<not> length (nftTokenId (auctions s auctionId)) > 0 then Inl NotFound
      else let bid = bids (auctions s auctionId) a in
        Inr (encryptedBidAmount bid, timestamp bid, isDecrypted bid, decryptedBidAmount bid))"

definition getAllAuctionIds :: "Contract \<Rightarrow> error + string list" where
  "getAllAuctionIds s = Inr (auctionIds s)"

definition getAllBidders :: "Contract \<Rightarrow> string \<Rightarrow> error + address list" where
  "getAllBidders s auctionId =
     (if \<not> length (nftTokenId (auctions s auctionId)) > 0 then Inl NotFound
      else Inr (bidders (auctions s auctionId)))"

section \<open>Transactions and traces\<close>

text \<open>
  A transaction is one external call of a state-changing function in its context. A
  transaction that reverts leaves the storage as it was; \<open>run\<close> applies a list of
  transactions in order.
\<close>

datatype call =
    CreateAuction string string uint256 uint256
  | PlaceBid string bytes32 bytes
  | DecryptBid string bytes bytes
  | FinalizeAuction string

fun exec :: "FHE \<Rightarrow> Env \<Rightarrow> Contract \<Rightarrow> call \<Rightarrow> error + Contract" where
  "exec fhe e s (CreateAuction auctionId nft start_time end_time) =
     createAuction e s auctionId nft start_time end_time"
| "exec fhe e s (PlaceBid auctionId h p) = placeBid fhe e s auctionId h p"
| "exec fhe e s (DecryptBid auctionId clear p) = decryptBid fhe e s auctionId clear p"
| "exec fhe e s (FinalizeAuction auctionId) = finalizeAuction e s auctionId"

definition step :: "FHE \<Rightarrow> Contract \<Rightarrow> Env \<times> call \<Rightarrow> Contract" where
  "step fhe s tx = (case exec fhe (fst tx) s (snd tx) of Inl _ \<Rightarrow> s | Inr s' \<Rightarrow> s')"

fun run :: "FHE \<Rightarrow> Contract \<Rightarrow> (Env \<times> call) list \<Rightarrow> Contract" where
  "run fhe s [] = s"
| "run fhe s (tx # txs) = run fhe (step fhe s tx) txs"

text \<open>
  What one transaction contributes to an auction's history: the reveal it performs on the
  auction, as the pair of the revealing address and the decoded amount (lines 108-110),
  and the address it appends to the list of bidders (line 85). Both are empty when the
  transaction reverts or is about something else.
\<close>

definition reveal_of :: "FHE \<Rightarrow> Contract \<Rightarrow> Env \<times> call \<Rightarrow> string \<Rightarrow> (address \<times> uint32) list" where
  "reveal_of fhe s tx auctionId =
     (case snd tx of
        DecryptBid j clear p \<Rightarrow>
          (if j = auctionId then
             (case decryptBid fhe (fst tx) s j clear p of
                Inl _ \<Rightarrow> []
              | Inr _ \<Rightarrow> (case abi_decode_uint32 clear of
                           None \<Rightarrow> [] | Some amount \<Rightarrow> [(msg_sender (fst tx), amount)]))
           else [])
      | _ \<Rightarrow> [])"

fun reveals :: "FHE \<Rightarrow> Contract \<Rightarrow> (Env \<times> call) list \<Rightarrow> string \<Rightarrow> (address \<times> uint32) list" where
  "reveals fhe s [] auctionId = []"
| "reveals fhe s (tx # txs) auctionId =
     reveal_of fhe s tx auctionId @ reveals fhe (step fhe s tx) txs auctionId"

definition place_of :: "FHE \<Rightarrow> Contract \<Rightarrow> Env \<times> call \<Rightarrow> string \<Rightarrow> address list" where
  "place_of fhe s tx auctionId =
     (case snd tx of
        PlaceBid j h p \<Rightarrow>
          (if j = auctionId then
             (case placeBid fhe (fst tx) s j h p of Inl _ \<Rightarrow> [] | Inr _ \<Rightarrow> [msg_sender (fst tx)])
           else [])
      | _ \<Rightarrow> [])"

fun placed :: "FHE \<Rightarrow> Contract \<Rightarrow> (Env \<times> call) list \<Rightarrow> string \<Rightarrow> address list" where
  "placed fhe s [] auctionId = []"
| "placed fhe s (tx # txs) auctionId =
     place_of fhe s tx auctionId @ placed fhe (step fhe s tx) txs auctionId"

text \<open>
  A transaction is a verified reveal on an auction when it is a \<open>decryptBid\<close> on it that
  passes the signature check on the caller's stored handle and returns.
\<close>

definition verified_reveal :: "FHE \<Rightarrow> Contract \<Rightarrow> Env \<times> call \<Rightarrow> string \<Rightarrow> bool" where
  "verified_reveal fhe s tx auctionId =
     (case snd tx of
        DecryptBid j clear p \<Rightarrow>
          j = auctionId
          \<and> checkSignatures fhe
               [toBytes32 (encryptedBidAmount (bids (auctions s j) (msg_sender (fst tx))))] clear p
          \<and> (case decryptBid fhe (fst tx) s j clear p of Inl _ \<Rightarrow> False | Inr _ \<Rightarrow> True)
      | _ \<Rightarrow> False)"

text \<open>
  The update of lines 112-115 on the pair (highest amount, highest bidder), and its
  iteration over a list of reveals.
\<close>

definition raise_highest :: "uint32 \<times> address \<Rightarrow> address \<times> uint32 \<Rightarrow> uint32 \<times> address" where
  "raise_highest hi r = (if snd r > fst hi then (snd r, fst r) else hi)"

definition tracker :: "uint32 \<times> address \<Rightarrow> (address \<times> uint32) list \<Rightarrow> uint32 \<times> address" where
  "tracker hi rs = foldl raise_highest hi rs"

text \<open>
  The words of the specification about a list of reveals: the largest revealed amount, and
  the address of the first reveal with a given amount.
\<close>

definition maxReveal :: "(address \<times> uint32) list \<Rightarrow> uint32" where
  "maxReveal rs = (if rs = [] then 0 else Max (set (map snd rs)))"

definition firstWith :: "(address \<times> uint32) list \<Rightarrow> uint32 \<Rightarrow> address option" where
  "firstWith rs m = map_option fst (find (\<lambda>r. snd r = m) rs)"

section \<open>Invariants of the storage\<close>

text \<open>
  An identifier that does not exist has no highest bid, no bidders and no bids: the slot
  is either untouched or was created with an empty item reference.
\<close>

definition fresh_ok :: "Contract \<Rightarrow> bool" where
  "fresh_ok s = (\<forall>i. \<not> auctionExists s i \<longrightarrow>
     highestBidder (auctions s i) = 0 \<and> highestBidAmount (auctions s i) = 0
     \<and> bidders (auctions s i) = [] \<and> (\<forall>x. bids (auctions s i) x = zeroBid))"

text \<open>
  An address has a stored bid when its record holds a ciphertext handle, the test of
  line 74. The list of bidders names these addresses, once each.
\<close>

definition hasBid :: "Contract \<Rightarrow> string \<Rightarrow> address \<Rightarrow> bool" where
  "hasBid s auctionId a = (encryptedBidAmount (bids (auctions s auctionId) a) \<noteq> 0)"

definition bidders_ok :: "Contract \<Rightarrow> bool" where
  "bidders_ok s = (\<forall>i. distinct (bidders (auctions s i))
     \<and> set (bidders (auctions s i)) = {x. hasBid s i x})"

text \<open>
  A record with no handle has no timestamp and no bidder, and no amount unless a reveal
  has marked it.
\<close>

definition slot_ok :: "Contract \<Rightarrow> bool" where
  "slot_ok s = (\<forall>i x. \<not> hasBid s i x \<longrightarrow>
     timestamp (bids (auctions s i) x) = 0 \<and> bidder (bids (auctions s i) x) = 0
     \<and> (\<not> isDecrypted (bids (auctions s i) x) \<longrightarrow> decryptedBidAmount (bids (auctions s i) x) = 0))"

text \<open>A verifier that accepts no opening of the zero handle, and what it maintains.\<close>

definition rejectsZeroHandle :: "FHE \<Rightarrow> bool" where
  "rejectsZeroHandle fhe = (\<forall>clear p. \<not> checkSignatures fhe [toBytes32 0] clear p)"

definition unmarked_ok :: "Contract \<Rightarrow> bool" where
  "unmarked_ok s = (\<forall>i x. \<not> hasBid s i x \<longrightarrow> \<not> isDecrypted (bids (auctions s i) x))"

text \<open>A finalized auction: it exists and its flag is down.\<close>

definition finalized :: "Contract \<Rightarrow> string \<Rightarrow> bool" where
  "finalized s auctionId = (auctionExists s auctionId \<and> \<not> isActive (auctions s auctionId))"

text \<open>
  An auction no reveal has raised yet: no highest bidder, and not finalized if it exists.
\<close>

definition unrevealed :: "Contract \<Rightarrow> string \<Rightarrow> bool" where
  "unrevealed s auctionId = (highestBidder (auctions s auctionId) = 0
     \<and> (auctionExists s auctionId \<longrightarrow> isActive (auctions s auctionId)))"

section \<open>Concrete scenarios\<close>

text \<open>
  Two stand-ins for the library: one accepts every input and every opening, the other
  accepts every input and every opening but those of the zero handle.
\<close>

definition acceptAll :: FHE where
  "acceptAll = \<lparr>fromExternal = (\<lambda>h p. Some h), checkSignatures = (\<lambda>cts clear p. True)\<rparr>"

definition strictFHE :: FHE where
  "strictFHE = \<lparr>fromExternal = (\<lambda>h p. Some h), checkSignatures = (\<lambda>cts clear p. cts \<noteq> [0])\<rparr>"

text \<open>The ABI encoding of an amount below 256: 31 zero bytes and the amount.\<close>

definition abi_encode_small :: "8 word \<Rightarrow> bytes" where
  "abi_encode_small b = replicate 31 0 @ [b]"

definition at :: "address \<Rightarrow> uint256 \<Rightarrow> Env" where
  "at a t = \<lparr>msg_sender = a, block_timestamp = t\<rparr>"

text \<open>
  Auction A1 with the window [10, 20], created at time 5; addresses 1 and 2 bid at times
  11 and 12.
\<close>

definition bidding :: "(Env \<times> call) list" where
  "bidding =
     [(at 9 5, CreateAuction ''A1'' ''nft'' 10 20),
      (at 1 11, PlaceBid ''A1'' 101 []),
      (at 2 12, PlaceBid ''A1'' 102 [])]"

text \<open>After the window, address 1 reveals 50 and the auction is finalized.\<close>

definition settled :: "(Env \<times> call) list" where
  "settled = bidding @
     [(at 1 21, DecryptBid ''A1'' (abi_encode_small 50) []),
      (at 9 22, FinalizeAuction ''A1'')]"

text \<open>After the finalization, address 2 reveals 80.\<close>

definition late_reveal :: "(Env \<times> call) list" where
  "late_reveal = [(at 2 23, DecryptBid ''A1'' (abi_encode_small 80) [])]"

text \<open>The same, with a revealed amount of 30.\<close>

definition modest_reveal :: "(Env \<times> call) list" where
  "modest_reveal = [(at 2 23, DecryptBid ''A1'' (abi_encode_small 30) [])]"

text \<open>After the window, address 7, which placed no bid, reveals 5.\<close>

definition stray_reveal :: "(Env \<times> call) list" where
  "stray_reveal = bidding @ [(at 7 21, DecryptBid ''A1'' (abi_encode_small 5) [])]"

text \<open>After the window, addresses 2 and 1 reveal 50 each, in this order.\<close>

definition tied_reveals :: "(Env \<times> call) list" where
  "tied_reveals = bidding @
     [(at 2 21, DecryptBid ''A1'' (abi_encode_small 50) []),
      (at 1 22, DecryptBid ''A1'' (abi_encode_small 50) [])]"

text \<open>After the window, address 1 reveals the amount 0.\<close>

definition zero_reveal :: "(Env \<times> call) list" where
  "zero_reveal = bidding @ [(at 1 21, DecryptBid ''A1'' (abi_encode_small 0) [])]"

section \<open>Basic facts\<close>

lemmas op_defs = createAuction_def placeBid_def decryptBid_def finalizeAuction_def
  auctionOngoing_def

lemma be_nat_zeros: "be_nat (replicate n 0 @ bs) = be_nat bs"
  unfolding be_nat_def by (induction n) simp_all

lemma be_nat_single: "be_nat [b] = unat b"
  by (simp add: be_nat_def)

lemma abi_decode_small: "abi_decode_uint32 (abi_encode_small b) = Some (ucast b)"
proof -
  have "unat b < 2 ^ 8"
    using unsigned_less [of b, where ?'a = nat] by simp
  then have "unat b < (2::nat) ^ 32"
    by simp
  then show ?thesis
    by (simp add: abi_decode_uint32_def abi_encode_small_def be_nat_zeros be_nat_single)
qed

lemmas scenario_defs = acceptAll_def strictFHE_def at_def bidding_def settled_def deployed_def
  zeroAuction_def zeroBid_def step_def isInitialized_def toBytes32_def auctionExists_def
  hasBid_def abi_decode_small Let_def

lemma fresh_ok_deployed: "fresh_ok deployed"
  by (simp add: fresh_ok_def deployed_def zeroAuction_def auctionExists_def)

lemma fresh_ok_exec: "fresh_ok s \<Longrightarrow> exec fhe e s c = Inr s' \<Longrightarrow> fresh_ok s'"
  by (cases c)
    (auto simp: fresh_ok_def op_defs auctionExists_def Let_def split: if_splits option.splits)

lemma fresh_ok_step: "fresh_ok s \<Longrightarrow> fresh_ok (step fhe s tx)"
  by (auto simp: step_def split: sum.splits dest: fresh_ok_exec)

lemma fresh_ok_run: "fresh_ok s \<Longrightarrow> fresh_ok (run fhe s txs)"
  by (induction txs arbitrary: s) (simp_all add: fresh_ok_step)

text \<open>
  The struct literal of \<^verbatim>\<open>createAuction\<close> leaves \<^verbatim>\<open>bids\<close> and \<^verbatim>\<open>bidders\<close> as they are. In
  every state the contract reaches they are empty where an auction can be created, so the
  new auction is the literal with no bids and no bidders.
\<close>

lemma createAuction_stores:
  assumes "s = run fhe deployed txs" and "createAuction e s i nft start_time end_time = Inr s'"
  shows "auctions s' i = \<lparr>nftTokenId = nft, startTime = start_time, endTime = end_time,
           highestBidder = 0, highestBidAmount = 0, isActive = True,
           bids = (\<lambda>_. zeroBid), bidders = []\<rparr>"
proof -
  have "fresh_ok s"
    using assms(1) by (simp add: fresh_ok_run fresh_ok_deployed)
  moreover have "\<not> auctionExists s i"
    using assms(2) by (auto simp: createAuction_def auctionExists_def split: if_splits)
  ultimately have "bidders (auctions s i) = []" "bids (auctions s i) = (\<lambda>_. zeroBid)"
    by (auto simp: fresh_ok_def)
  then show ?thesis
    using assms(2) by (auto simp: createAuction_def split: if_splits)
qed

lemma bidders_ok_deployed: "bidders_ok deployed"
  by (simp add: bidders_ok_def hasBid_def deployed_def zeroAuction_def zeroBid_def)

lemma bidders_ok_exec: "bidders_ok s \<Longrightarrow> exec fhe e s c = Inr s' \<Longrightarrow> bidders_ok s'"
  by (cases c)
    (auto simp: bidders_ok_def hasBid_def op_defs isInitialized_def Let_def
          split: if_splits option.splits)

lemma bidders_ok_step: "bidders_ok s \<Longrightarrow> bidders_ok (step fhe s tx)"
  by (auto simp: step_def split: sum.splits dest: bidders_ok_exec)

lemma bidders_ok_run: "bidders_ok s \<Longrightarrow> bidders_ok (run fhe s txs)"
  by (induction txs arbitrary: s) (simp_all add: bidders_ok_step)

lemma slot_ok_deployed: "slot_ok deployed"
  by (simp add: slot_ok_def deployed_def zeroAuction_def zeroBid_def)

lemma slot_ok_exec: "slot_ok s \<Longrightarrow> exec fhe e s c = Inr s' \<Longrightarrow> slot_ok s'"
  by (cases c)
    (auto simp: slot_ok_def hasBid_def op_defs isInitialized_def Let_def
          split: if_splits option.splits)

lemma slot_ok_step: "slot_ok s \<Longrightarrow> slot_ok (step fhe s tx)"
  by (auto simp: step_def split: sum.splits dest: slot_ok_exec)

lemma slot_ok_run: "slot_ok s \<Longrightarrow> slot_ok (run fhe s txs)"
  by (induction txs arbitrary: s) (simp_all add: slot_ok_step)

lemma unmarked_ok_deployed: "unmarked_ok deployed"
  by (simp add: unmarked_ok_def deployed_def zeroAuction_def zeroBid_def)

lemma unmarked_ok_exec:
  "rejectsZeroHandle fhe \<Longrightarrow> unmarked_ok s \<Longrightarrow> exec fhe e s c = Inr s' \<Longrightarrow> unmarked_ok s'"
  by (cases c)
    (auto simp: unmarked_ok_def rejectsZeroHandle_def hasBid_def op_defs isInitialized_def
          Let_def split: if_splits option.splits)

lemma unmarked_ok_step: "rejectsZeroHandle fhe \<Longrightarrow> unmarked_ok s \<Longrightarrow> unmarked_ok (step fhe s tx)"
  by (auto simp: step_def split: sum.splits dest: unmarked_ok_exec)

lemma unmarked_ok_run: "rejectsZeroHandle fhe \<Longrightarrow> unmarked_ok s \<Longrightarrow> unmarked_ok (run fhe s txs)"
  by (induction txs arbitrary: s) (simp_all add: unmarked_ok_step)

section \<open>The views on an unknown identifier\<close>

text \<open>
  Claim C10. For an identifier that does not exist, \<open>getAuctionDetails\<close>, \<open>getBid\<close>
  and \<open>getAllBidders\<close> fail with the auction-does-not-exist error and return no default
  value; \<open>getAllAuctionIds\<close> returns the list of identifiers in every state.
\<close>

theorem unknown_auction_views:
  "(\<not> auctionExists s i \<longrightarrow>
      getAuctionDetails s i = Inl NotFound \<and> getBid s i a = Inl NotFound
      \<and> getAllBidders s i = Inl NotFound)
   \<and> getAllAuctionIds s = Inr (auctionIds s)"
  by (simp add: getAuctionDetails_def getBid_def getAllBidders_def getAllAuctionIds_def
      auctionExists_def)

theorem unknown_auction_views_witness:
  "\<not> auctionExists (run acceptAll deployed bidding) ''B7''
   \<and> getAuctionDetails (run acceptAll deployed bidding) ''B7'' = Inl NotFound
   \<and> getBid (run acceptAll deployed bidding) ''B7'' 1 = Inl NotFound
   \<and> getAllBidders (run acceptAll deployed bidding) ''B7'' = Inl NotFound
   \<and> getAllAuctionIds (run acceptAll deployed bidding) = Inr [''A1'']"
proof -
  have h: "\<not> auctionExists (run acceptAll deployed bidding) ''B7''"
    by (simp add: scenario_defs op_defs)
  have ids: "auctionIds (run acceptAll deployed bidding) = [''A1'']"
    by (simp add: scenario_defs op_defs)
  show ?thesis
    using h ids unknown_auction_views [of "run acceptAll deployed bidding" "''B7''" 1]
    by simp
qed

section \<open>The time window of a new auction\<close>

text \<open>
  Claim C3, amended. On an identifier that does not exist, \<open>createAuction\<close> fails with
  \<open>InvalidTimeWindow\<close> and stores nothing when the start time is before the current time
  or the end time is not after the start time. A start time equal to the current time is
  accepted: line 50 compares with \<^verbatim>\<open>>=\<close>.
\<close>

theorem createAuction_window:
  assumes "\<not> auctionExists s i"
  shows "(start_time < block_timestamp e \<or> end_time \<le> start_time \<longrightarrow>
            createAuction e s i nft start_time end_time = Inl InvalidTimeWindow
            \<and> step fhe s (e, CreateAuction i nft start_time end_time) = s)
       \<and> (start_time = block_timestamp e \<and> start_time < end_time \<longrightarrow>
            (\<exists>s'. createAuction e s i nft start_time end_time = Inr s'
                 \<and> startTime (auctions s' i) = block_timestamp e
                 \<and> nftTokenId (auctions s' i) = nft
                 \<and> auctionIds s' = auctionIds s @ [i]))"
  using assms
  by (auto simp: createAuction_def auctionExists_def step_def)

theorem createAuction_window_witness:
  "\<not> auctionExists deployed ''A1''
   \<and> createAuction (at 9 15) deployed ''A1'' ''nft'' 10 20 = Inl InvalidTimeWindow
   \<and> createAuction (at 9 5) deployed ''A1'' ''nft'' 10 10 = Inl InvalidTimeWindow
   \<and> step acceptAll deployed (at 9 15, CreateAuction ''A1'' ''nft'' 10 20) = deployed
   \<and> auctionIds (step acceptAll deployed (at 9 10, CreateAuction ''A1'' ''nft'' 10 20)) = [''A1'']"
proof -
  have h: "\<not> auctionExists deployed ''A1''"
    by (simp add: scenario_defs)
  have a: "(10::uint256) < block_timestamp (at 9 15)" "(10::uint256) \<le> 10"
    "(10::uint256) = block_timestamp (at 9 10)" "(10::uint256) < 20"
    by (simp_all add: at_def)
  show ?thesis
    using h a createAuction_window [OF h, of 10 "at 9 15" 20 "''nft''" acceptAll]
      createAuction_window [OF h, of 10 "at 9 5" 10 "''nft''" acceptAll]
      createAuction_window [OF h, of 10 "at 9 10" 20 "''nft''" acceptAll]
    by (auto simp: step_def deployed_def)
qed

theorem createAuction_at_now_counterexample:
  "\<not> auctionExists deployed ''A1''
   \<and> (10::uint256) \<le> block_timestamp (at 9 10)
   \<and> createAuction (at 9 10) deployed ''A1'' ''nft'' 10 20 \<noteq> Inl InvalidTimeWindow
   \<and> auctionExists (step acceptAll deployed (at 9 10, CreateAuction ''A1'' ''nft'' 10 20)) ''A1''"
  by (simp add: scenario_defs op_defs)

section \<open>Finalization\<close>

lemma finalized_exec: "finalized s i \<Longrightarrow> exec fhe e s c = Inr s' \<Longrightarrow>
    finalized s' i \<and> endTime (auctions s' i) = endTime (auctions s i)"
  by (cases c)
    (auto simp: finalized_def op_defs auctionExists_def Let_def split: if_splits option.splits)

lemma finalized_step: "finalized s i \<Longrightarrow>
    finalized (step fhe s tx) i \<and> endTime (auctions (step fhe s tx) i) = endTime (auctions s i)"
  by (auto simp: step_def split: sum.splits dest: finalized_exec)

lemma finalized_run: "finalized s i \<Longrightarrow>
    finalized (run fhe s txs) i \<and> endTime (auctions (run fhe s txs) i) = endTime (auctions s i)"
proof (induction txs arbitrary: s)
  case Nil
  then show ?case by simp
next
  case (Cons tx txs)
  from Cons.prems have st: "finalized (step fhe s tx) i"
    "endTime (auctions (step fhe s tx) i) = endTime (auctions s i)"
    using finalized_step by blast+
  from Cons.IH [OF st(1)] st(2) show ?case by simp
qed

lemma finalize_success:
  "finalizeAuction e s i = Inr s1 \<Longrightarrow>
     finalized s1 i \<and> endTime (auctions s1 i) = endTime (auctions s i)
     \<and> endTime (auctions s i) < block_timestamp e"
  by (auto simp: finalizeAuction_def finalized_def auctionExists_def Let_def split: if_splits)

lemma finalized_again:
  "finalized s i \<Longrightarrow> endTime (auctions s i) < block_timestamp e \<Longrightarrow>
     finalizeAuction e s i = Inl AlreadyFinalized"
  by (simp add: finalizeAuction_def finalized_def auctionExists_def)


lemma unrevealed_deployed: "unrevealed deployed i"
  by (simp add: unrevealed_def deployed_def zeroAuction_def auctionExists_def)

lemma unrevealed_step:
  "unrevealed s i \<Longrightarrow> reveal_of fhe s tx i = [] \<Longrightarrow> unrevealed (step fhe s tx) i"
  by (cases tx, cases "snd tx")
    (auto simp: unrevealed_def reveal_of_def step_def op_defs auctionExists_def Let_def
          split: if_splits option.splits sum.splits)

lemma unrevealed_run:
  "unrevealed s i \<Longrightarrow> reveals fhe s txs i = [] \<Longrightarrow> unrevealed (run fhe s txs) i"
  by (induction txs arbitrary: s) (simp_all add: unrevealed_step)

text \<open>
  Claim C6. For an existing auction, \<open>finalizeAuction\<close> fails with \<open>AuctionNotEnded\<close>
  when the current time is not past the end time. Past the end time it fails with
  \<open>NoValidBids\<close> when the auction is still active and has no highest bidder, and so in
  every state the contract reaches without a successful reveal on the auction. After a
  successful finalization, every later call on the auction, whatever transactions came in
  between, fails with \<open>AlreadyFinalized\<close>; later calls carry a block time that is not
  before the finalization's.
\<close>

theorem finalize_gates:
  assumes "auctionExists s i"
  shows "(\<not> endTime (auctions s i) < block_timestamp e \<longrightarrow>
            finalizeAuction e s i = Inl AuctionNotEnded)
       \<and> (endTime (auctions s i) < block_timestamp e \<and> isActive (auctions s i)
            \<and> highestBidder (auctions s i) = 0 \<longrightarrow>
            finalizeAuction e s i = Inl NoValidBids)
       \<and> (endTime (auctions s i) < block_timestamp e \<and> s = run fhe deployed txs0
            \<and> reveals fhe deployed txs0 i = [] \<longrightarrow>
            finalizeAuction e s i = Inl NoValidBids)
       \<and> (\<forall>s1. finalizeAuction e s i = Inr s1 \<and> block_timestamp e \<le> block_timestamp e' \<longrightarrow>
            finalizeAuction e' (run fhe s1 txs) i = Inl AlreadyFinalized)"
proof (intro conjI allI impI)
  assume "\<not> endTime (auctions s i) < block_timestamp e"
  with assms show "finalizeAuction e s i = Inl AuctionNotEnded"
    by (simp add: finalizeAuction_def auctionExists_def)
next
  assume "endTime (auctions s i) < block_timestamp e \<and> isActive (auctions s i)
            \<and> highestBidder (auctions s i) = 0"
  with assms show "finalizeAuction e s i = Inl NoValidBids"
    by (simp add: finalizeAuction_def auctionExists_def)
next
  assume a: "endTime (auctions s i) < block_timestamp e \<and> s = run fhe deployed txs0
            \<and> reveals fhe deployed txs0 i = []"
  then have "unrevealed s i"
    using unrevealed_run [OF unrevealed_deployed] by blast
  with assms have "isActive (auctions s i)" "highestBidder (auctions s i) = 0"
    by (simp_all add: unrevealed_def)
  moreover from a have "endTime (auctions s i) < block_timestamp e"
    by blast
  ultimately show "finalizeAuction e s i = Inl NoValidBids"
    using assms by (simp add: finalizeAuction_def auctionExists_def)
next
  fix s1
  assume a: "finalizeAuction e s i = Inr s1 \<and> block_timestamp e \<le> block_timestamp e'"
  then have f: "finalized s1 i" "endTime (auctions s1 i) = endTime (auctions s i)"
    "endTime (auctions s i) < block_timestamp e"
    using finalize_success by blast+
  have "finalized (run fhe s1 txs) i"
    "endTime (auctions (run fhe s1 txs) i) = endTime (auctions s1 i)"
    using finalized_run [OF f(1)] by blast+
  moreover have "endTime (auctions s i) < block_timestamp e'"
    using f(3) a by (blast intro: less_le_trans)
  ultimately show "finalizeAuction e' (run fhe s1 txs) i = Inl AlreadyFinalized"
    using f(2) by (simp add: finalized_again)
qed

theorem finalize_gates_witness:
  "auctionExists (run acceptAll deployed bidding) ''A1''
   \<and> reveals acceptAll deployed bidding ''A1'' = []
   \<and> finalizeAuction (at 9 20) (run acceptAll deployed bidding) ''A1'' = Inl AuctionNotEnded
   \<and> finalizeAuction (at 9 21) (run acceptAll deployed bidding) ''A1'' = Inl NoValidBids
   \<and> finalizeAuction (at 9 22) (run acceptAll deployed (butlast settled)) ''A1''
       = Inr (run acceptAll deployed settled)
   \<and> finalizeAuction (at 3 24) (run acceptAll (run acceptAll deployed settled) late_reveal) ''A1''
       = Inl AlreadyFinalized"
proof -
  let ?s = "run acceptAll deployed bidding"
  let ?t = "run acceptAll deployed (butlast settled)"
  have ex: "auctionExists ?s ''A1''" "auctionExists ?t ''A1''"
    by (simp_all add: scenario_defs op_defs)
  have h1: "\<not> endTime (auctions ?s ''A1'') < block_timestamp (at 9 20)"
    by (simp add: scenario_defs op_defs)
  have h2: "endTime (auctions ?s ''A1'') < block_timestamp (at 9 21) \<and> isActive (auctions ?s ''A1'')
      \<and> highestBidder (auctions ?s ''A1'') = 0"
    by (simp add: scenario_defs op_defs)
  have h2': "reveals acceptAll deployed bidding ''A1'' = []"
    by (simp add: scenario_defs op_defs reveal_of_def)
  have h3: "finalizeAuction (at 9 22) ?t ''A1'' = Inr (run acceptAll deployed settled)"
    by (simp add: scenario_defs op_defs)
  have h4: "block_timestamp (at 9 22) \<le> block_timestamp (at 3 24)"
    by (simp add: at_def)
  show ?thesis
    using ex h1 h2 h2' h3 h4
      finalize_gates [OF ex(1), of "at 9 20" acceptAll bidding "at 9 20" "[]"]
      finalize_gates [OF ex(1), of "at 9 21" acceptAll bidding "at 9 21" "[]"]
      finalize_gates [OF ex(2), of "at 9 22" acceptAll "[]" "at 3 24" late_reveal]
    by simp
qed

section \<open>One bid per bidder\<close>

lemma exec_keeps_bid:
  "hasBid s i a \<Longrightarrow> exec fhe e s c = Inr s' \<Longrightarrow>
     encryptedBidAmount (bids (auctions s' i) a) = encryptedBidAmount (bids (auctions s i) a)
     \<and> timestamp (bids (auctions s' i) a) = timestamp (bids (auctions s i) a)
     \<and> bidder (bids (auctions s' i) a) = bidder (bids (auctions s i) a)"
  by (cases c) (auto simp: hasBid_def op_defs Let_def split: if_splits option.splits)

lemma step_keeps_bid:
  "hasBid s i a \<Longrightarrow>
     encryptedBidAmount (bids (auctions (step fhe s tx) i) a) = encryptedBidAmount (bids (auctions s i) a)
     \<and> timestamp (bids (auctions (step fhe s tx) i) a) = timestamp (bids (auctions s i) a)
     \<and> bidder (bids (auctions (step fhe s tx) i) a) = bidder (bids (auctions s i) a)"
  by (cases "exec fhe (fst tx) s (snd tx)") (simp_all add: step_def exec_keeps_bid)

lemma placeBid_duplicate:
  "hasBid s i (msg_sender e) \<Longrightarrow> \<exists>err. placeBid fhe e s i h p = Inl err"
  by (auto simp: placeBid_def hasBid_def Let_def split: option.splits)

text \<open>
  Claim C7, amended. When the calling bidder already has a stored bid in the auction,
  \<open>placeBid\<close> fails and the storage stays as it was. The error is that of the first
  requirement that fails: the error of the modifier (\<open>NotFound\<close> or \<open>InactiveWindow\<close>)
  when the auction is not ongoing, \<open>InvalidCiphertext\<close> when the auction is ongoing and
  the input does not verify, and \<open>DuplicateBid\<close> when the auction is ongoing and the input
  verifies, so that the call gets as far as the duplicate test of line 74. No transaction
  of any kind replaces the ciphertext handle, the timestamp or the bidder of a stored bid.
\<close>

theorem second_bid_rejected:
  assumes "hasBid s i (msg_sender e)"
  shows "(\<exists>err. placeBid fhe e s i h p = Inl err)
       \<and> (\<forall>err. auctionOngoing e s i = Some err \<longrightarrow> placeBid fhe e s i h p = Inl err)
       \<and> (auctionOngoing e s i = None
            \<and> (fromExternal fhe h p = None
                 \<or> (\<exists>h'. fromExternal fhe h p = Some h' \<and> \<not> isInitialized h')) \<longrightarrow>
            placeBid fhe e s i h p = Inl InvalidCiphertext)
       \<and> (auctionOngoing e s i = None
            \<and> (\<exists>h'. fromExternal fhe h p = Some h' \<and> isInitialized h') \<longrightarrow>
            placeBid fhe e s i h p = Inl DuplicateBid)
       \<and> step fhe s (e, PlaceBid i h p) = s
       \<and> encryptedBidAmount (bids (auctions (step fhe s tx) i) (msg_sender e))
            = encryptedBidAmount (bids (auctions s i) (msg_sender e))
       \<and> timestamp (bids (auctions (step fhe s tx) i) (msg_sender e))
            = timestamp (bids (auctions s i) (msg_sender e))
       \<and> bidder (bids (auctions (step fhe s tx) i) (msg_sender e))
            = bidder (bids (auctions s i) (msg_sender e))"
proof -
  obtain err where f: "placeBid fhe e s i h p = Inl err"
    using placeBid_duplicate [OF assms] by blast
  then have st: "step fhe s (e, PlaceBid i h p) = s"
    by (simp add: step_def)
  have gate: "\<forall>err. auctionOngoing e s i = Some err \<longrightarrow> placeBid fhe e s i h p = Inl err"
    by (simp add: placeBid_def)
  have bad: "auctionOngoing e s i = None
            \<and> (fromExternal fhe h p = None
                 \<or> (\<exists>h'. fromExternal fhe h p = Some h' \<and> \<not> isInitialized h')) \<longrightarrow>
            placeBid fhe e s i h p = Inl InvalidCiphertext"
    by (auto simp: placeBid_def)
  have dup: "auctionOngoing e s i = None
            \<and> (\<exists>h'. fromExternal fhe h p = Some h' \<and> isInitialized h') \<longrightarrow>
            placeBid fhe e s i h p = Inl DuplicateBid"
    using assms by (auto simp: placeBid_def hasBid_def Let_def)
  show ?thesis
    using f st gate bad dup step_keeps_bid [OF assms, of fhe tx] by blast
qed

theorem second_bid_rejected_witness:
  "hasBid (run acceptAll deployed bidding) ''A1'' (msg_sender (at 1 13))
   \<and> placeBid acceptAll (at 1 13) (run acceptAll deployed bidding) ''A1'' 777 [] = Inl DuplicateBid
   \<and> placeBid acceptAll (at 1 13) (run acceptAll deployed bidding) ''A1'' 0 [] = Inl InvalidCiphertext
   \<and> placeBid acceptAll (at 1 21) (run acceptAll deployed bidding) ''A1'' 777 [] = Inl InactiveWindow
   \<and> step acceptAll (run acceptAll deployed bidding) (at 1 13, PlaceBid ''A1'' 777 [])
       = run acceptAll deployed bidding
   \<and> encryptedBidAmount (bids (auctions (step acceptAll (run acceptAll deployed bidding)
        (at 1 21, DecryptBid ''A1'' (abi_encode_small 50) [])) ''A1'') (msg_sender (at 1 13))) = 101"
proof -
  let ?s = "run acceptAll deployed bidding"
  let ?tx = "(at 1 21, DecryptBid ''A1'' (abi_encode_small 50) [])"
  have h: "hasBid ?s ''A1'' (msg_sender (at 1 13))"
    by (simp add: scenario_defs op_defs)
  have h': "hasBid ?s ''A1'' (msg_sender (at 1 21))"
    by (simp add: scenario_defs op_defs)
  have g: "auctionOngoing (at 1 13) ?s ''A1'' = None"
    "\<exists>h'. fromExternal acceptAll 777 [] = Some h' \<and> isInitialized h'"
    "\<exists>h'. fromExternal acceptAll 0 [] = Some h' \<and> \<not> isInitialized h'"
    "auctionOngoing (at 1 21) ?s ''A1'' = Some InactiveWindow"
    by (simp_all add: scenario_defs op_defs)
  have v: "encryptedBidAmount (bids (auctions ?s ''A1'') (msg_sender (at 1 13))) = 101"
    by (simp add: scenario_defs op_defs)
  have a: "placeBid acceptAll (at 1 13) ?s ''A1'' 777 [] = Inl DuplicateBid"
    using g(1,2) second_bid_rejected [OF h, of acceptAll 777 "[]" ?tx] by blast
  have b: "placeBid acceptAll (at 1 13) ?s ''A1'' 0 [] = Inl InvalidCiphertext"
    using g(1,3) second_bid_rejected [OF h, of acceptAll 0 "[]" ?tx] by blast
  have c: "placeBid acceptAll (at 1 21) ?s ''A1'' 777 [] = Inl InactiveWindow"
    using g(4) second_bid_rejected [OF h', of acceptAll 777 "[]" ?tx] by blast
  have d: "step acceptAll ?s (at 1 13, PlaceBid ''A1'' 777 []) = ?s"
    "encryptedBidAmount (bids (auctions (step acceptAll ?s ?tx) ''A1'') (msg_sender (at 1 13))) = 101"
    using v second_bid_rejected [OF h, of acceptAll 777 "[]" ?tx] by simp_all
  show ?thesis
    using h a b c d by blast
qed

theorem second_bid_rejected_counterexample:
  "hasBid (run acceptAll deployed bidding) ''A1'' (msg_sender (at 1 21))
   \<and> placeBid acceptAll (at 1 21) (run acceptAll deployed bidding) ''A1'' 777 [] = Inl InactiveWindow
   \<and> placeBid acceptAll (at 1 21) (run acceptAll deployed bidding) ''A1'' 777 [] \<noteq> Inl DuplicateBid
   \<and> hasBid (run acceptAll deployed bidding) ''A1'' (msg_sender (at 1 13))
   \<and> placeBid acceptAll (at 1 13) (run acceptAll deployed bidding) ''A1'' 0 [] = Inl InvalidCiphertext
   \<and> placeBid acceptAll (at 1 13) (run acceptAll deployed bidding) ''A1'' 0 [] \<noteq> Inl DuplicateBid"
  by (simp add: scenario_defs op_defs)

section \<open>Reveals\<close>

text \<open>
  Claim C4, amended. On a finalized auction a successful reveal leaves the auction
  finalized, writes the decrypted flag and the revealed amount of the caller's record and
  nothing else besides the highest bid. It leaves the highest bidder and the highest
  amount unchanged when the revealed amount is not above the highest amount; a revealed
  amount above it replaces both, since \<open>decryptBid\<close> does not read the flag \<open>isActive\<close>.
\<close>

theorem reveal_after_finalization:
  assumes "finalized s i" and "decryptBid fhe e s i clear p = Inr s'"
  shows "\<exists>amount. abi_decode_uint32 clear = Some amount
       \<and> finalized s' i
       \<and> bids (auctions s' i) (msg_sender e)
           = (bids (auctions s i) (msg_sender e))\<lparr>decryptedBidAmount := amount, isDecrypted := True\<rparr>
       \<and> (\<forall>x. x \<noteq> msg_sender e \<longrightarrow> bids (auctions s' i) x = bids (auctions s i) x)
       \<and> (\<forall>j. j \<noteq> i \<longrightarrow> auctions s' j = auctions s j)
       \<and> auctionIds s' = auctionIds s
       \<and> bidders (auctions s' i) = bidders (auctions s i)
       \<and> nftTokenId (auctions s' i) = nftTokenId (auctions s i)
       \<and> startTime (auctions s' i) = startTime (auctions s i)
       \<and> endTime (auctions s' i) = endTime (auctions s i)
       \<and> (amount \<le> highestBidAmount (auctions s i) \<longrightarrow>
            highestBidAmount (auctions s' i) = highestBidAmount (auctions s i)
            \<and> highestBidder (auctions s' i) = highestBidder (auctions s i))
       \<and> (highestBidAmount (auctions s i) < amount \<longrightarrow>
            highestBidAmount (auctions s' i) = amount
            \<and> highestBidder (auctions s' i) = msg_sender e)"
  using assms
  by (auto simp: decryptBid_def finalized_def auctionExists_def Let_def
           split: if_splits option.splits)

theorem reveal_after_finalization_witness:
  "finalized (run acceptAll deployed settled) ''A1''
   \<and> decryptBid acceptAll (at 2 23) (run acceptAll deployed settled) ''A1'' (abi_encode_small 30) []
       = Inr (run acceptAll (run acceptAll deployed settled) modest_reveal)
   \<and> highestBidAmount (auctions (run acceptAll (run acceptAll deployed settled) modest_reveal) ''A1'') = 50
   \<and> highestBidder (auctions (run acceptAll (run acceptAll deployed settled) modest_reveal) ''A1'') = 1
   \<and> decryptedBidAmount (bids (auctions (run acceptAll (run acceptAll deployed settled) modest_reveal) ''A1'') 2) = 30
   \<and> finalized (run acceptAll (run acceptAll deployed settled) late_reveal) ''A1''
   \<and> isDecrypted (bids (auctions (run acceptAll (run acceptAll deployed settled) late_reveal) ''A1'') 2)"
proof -
  let ?s = "run acceptAll deployed settled"
  let ?s' = "run acceptAll ?s modest_reveal"
  have f: "finalized ?s ''A1''"
    by (simp add: finalized_def scenario_defs op_defs)
  have d: "decryptBid acceptAll (at 2 23) ?s ''A1'' (abi_encode_small 30) [] = Inr ?s'"
    by (simp add: modest_reveal_def scenario_defs op_defs)
  have v: "highestBidAmount (auctions ?s ''A1'') = 50" "highestBidder (auctions ?s ''A1'') = 1"
    by (simp_all add: scenario_defs op_defs)
  have d': "decryptBid acceptAll (at 2 23) ?s ''A1'' (abi_encode_small 80) []
      = Inr (run acceptAll ?s late_reveal)"
    by (simp add: late_reveal_def scenario_defs op_defs)
  show ?thesis
    using f d v reveal_after_finalization [OF f d] reveal_after_finalization [OF f d']
    by (auto simp: abi_decode_small at_def)
qed

theorem reveal_after_finalization_counterexample:
  "finalized (run acceptAll deployed settled) ''A1''
   \<and> decryptBid acceptAll (at 2 23) (run acceptAll deployed settled) ''A1'' (abi_encode_small 80) []
       = Inr (run acceptAll (run acceptAll deployed settled) late_reveal)
   \<and> highestBidder (auctions (run acceptAll deployed settled) ''A1'') = 1
   \<and> highestBidAmount (auctions (run acceptAll deployed settled) ''A1'') = 50
   \<and> highestBidder (auctions (run acceptAll (run acceptAll deployed settled) late_reveal) ''A1'') = 2
   \<and> highestBidAmount (auctions (run acceptAll (run acceptAll deployed settled) late_reveal) ''A1'') = 80"
  by (simp add: finalized_def late_reveal_def scenario_defs op_defs)

lemma unmarked_reachable:
  "rejectsZeroHandle fhe \<Longrightarrow> unmarked_ok (run fhe deployed txs)"
  by (simp add: unmarked_ok_run unmarked_ok_deployed)

text \<open>
  Claim C2, amended. On an existing, ended auction, a reveal by a caller with no stored
  bid never fails with \<open>NotFound\<close>: \<open>decryptBid\<close> has no requirement on the bid's
  existence and hands the zero handle to the verifier. In every state the contract reaches
  with a verifier that rejects the openings of the zero handle, the call fails with
  \<open>InvalidProof\<close> and the storage stays as it was.
\<close>

theorem reveal_without_bid:
  assumes "auctionExists s i" and "endTime (auctions s i) < block_timestamp e"
    and "\<not> hasBid s i (msg_sender e)"
  shows "decryptBid fhe e s i clear p \<noteq> Inl NotFound
       \<and> (rejectsZeroHandle fhe \<and> s = run fhe deployed txs \<longrightarrow>
            decryptBid fhe e s i clear p = Inl InvalidProof
            \<and> step fhe s (e, DecryptBid i clear p) = s)"
proof (intro conjI impI)
  show "decryptBid fhe e s i clear p \<noteq> Inl NotFound"
    using assms(1,2)
    by (auto simp: decryptBid_def auctionExists_def Let_def split: option.splits)
next
  assume a: "rejectsZeroHandle fhe \<and> s = run fhe deployed txs"
  then have "unmarked_ok s"
    using unmarked_reachable by blast
  with assms(3) have u: "\<not> isDecrypted (bids (auctions s i) (msg_sender e))"
    by (simp add: unmarked_ok_def)
  from assms(3) have z: "encryptedBidAmount (bids (auctions s i) (msg_sender e)) = 0"
    by (simp add: hasBid_def)
  from a have r: "\<not> checkSignatures fhe [toBytes32 0] clear p"
    by (simp add: rejectsZeroHandle_def)
  show "decryptBid fhe e s i clear p = Inl InvalidProof"
    using assms(1,2) u z r by (simp add: decryptBid_def auctionExists_def)
  then show "step fhe s (e, DecryptBid i clear p) = s"
    by (simp add: step_def)
qed

theorem reveal_without_bid_witness:
  "auctionExists (run strictFHE deployed bidding) ''A1''
   \<and> endTime (auctions (run strictFHE deployed bidding) ''A1'') < block_timestamp (at 7 21)
   \<and> \<not> hasBid (run strictFHE deployed bidding) ''A1'' (msg_sender (at 7 21))
   \<and> rejectsZeroHandle strictFHE
   \<and> decryptBid strictFHE (at 7 21) (run strictFHE deployed bidding) ''A1'' (abi_encode_small 5) []
       = Inl InvalidProof
   \<and> step strictFHE (run strictFHE deployed bidding)
        (at 7 21, DecryptBid ''A1'' (abi_encode_small 5) []) = run strictFHE deployed bidding"
proof -
  let ?s = "run strictFHE deployed bidding"
  have h: "auctionExists ?s ''A1''"
    "endTime (auctions ?s ''A1'') < block_timestamp (at 7 21)"
    "\<not> hasBid ?s ''A1'' (msg_sender (at 7 21))"
    by (simp_all add: scenario_defs op_defs)
  have r: "rejectsZeroHandle strictFHE"
    by (simp add: rejectsZeroHandle_def strictFHE_def toBytes32_def)
  show ?thesis
    using h r reveal_without_bid [OF h, of strictFHE "abi_encode_small 5" "[]" bidding]
    by simp
qed

theorem reveal_without_bid_counterexample:
  "auctionExists (run strictFHE deployed bidding) ''A1''
   \<and> endTime (auctions (run strictFHE deployed bidding) ''A1'') < block_timestamp (at 7 21)
   \<and> \<not> hasBid (run strictFHE deployed bidding) ''A1'' (msg_sender (at 7 21))
   \<and> decryptBid strictFHE (at 7 21) (run strictFHE deployed bidding) ''A1'' (abi_encode_small 5) []
       = Inl InvalidProof
   \<and> decryptBid strictFHE (at 7 21) (run strictFHE deployed bidding) ''A1'' (abi_encode_small 5) []
       \<noteq> Inl NotFound
   \<and> (\<exists>s'. decryptBid acceptAll (at 7 21) (run acceptAll deployed bidding) ''A1'' (abi_encode_small 5) []
       = Inr s')"
  by (simp add: scenario_defs op_defs)

section \<open>The highest bid\<close>

lemma exec_highest:
  assumes "fresh_ok s" and "exec fhe e s c = Inr s'"
  shows "highestBidAmount (auctions s i) \<le> highestBidAmount (auctions s' i)
       \<and> (highestBidder (auctions s' i) \<noteq> highestBidder (auctions s i) \<longrightarrow>
            highestBidAmount (auctions s i) < highestBidAmount (auctions s' i)
            \<and> verified_reveal fhe s (e, c) i
            \<and> reveal_of fhe s (e, c) i
                = [(highestBidder (auctions s' i), highestBidAmount (auctions s' i))])"
  using assms
  by (cases c)
    (auto simp: fresh_ok_def reveal_of_def verified_reveal_def op_defs auctionExists_def Let_def
          split: if_splits option.splits)

text \<open>
  Claim C5. In every state the contract reaches and for every transaction (a call of
  \<open>createAuction\<close>, \<open>placeBid\<close>, \<open>decryptBid\<close> or \<open>finalizeAuction\<close>, reverting or
  not) and every auction, the highest amount after the transaction is at least the highest
  amount before it; and when the highest bidder changes, the highest amount has strictly
  increased and the transaction is a verified reveal on that auction, whose caller and
  amount are the new highest bidder and amount.
\<close>

theorem highest_never_regresses:
  assumes "s = run fhe deployed txs" and "s' = step fhe s tx"
  shows "highestBidAmount (auctions s i) \<le> highestBidAmount (auctions s' i)
       \<and> (highestBidder (auctions s' i) \<noteq> highestBidder (auctions s i) \<longrightarrow>
            highestBidAmount (auctions s i) < highestBidAmount (auctions s' i)
            \<and> verified_reveal fhe s tx i
            \<and> reveal_of fhe s tx i
                = [(highestBidder (auctions s' i), highestBidAmount (auctions s' i))])"
proof (cases "exec fhe (fst tx) s (snd tx)")
  case (Inl err)
  then have "s' = s"
    using assms(2) by (simp add: step_def)
  then show ?thesis by simp
next
  case (Inr t)
  then have t: "s' = t"
    using assms(2) by (simp add: step_def)
  have "fresh_ok s"
    using assms(1) by (simp add: fresh_ok_run fresh_ok_deployed)
  from exec_highest [OF this Inr, of i] t show ?thesis
    by simp
qed

theorem highest_never_regresses_witness:
  "highestBidAmount (auctions (run acceptAll deployed bidding) ''A1'') = 0
   \<and> highestBidAmount (auctions (step acceptAll (run acceptAll deployed bidding)
        (at 1 21, DecryptBid ''A1'' (abi_encode_small 50) [])) ''A1'') = 50
   \<and> highestBidder (auctions (step acceptAll (run acceptAll deployed bidding)
        (at 1 21, DecryptBid ''A1'' (abi_encode_small 50) [])) ''A1'') = 1
   \<and> verified_reveal acceptAll (run acceptAll deployed bidding)
        (at 1 21, DecryptBid ''A1'' (abi_encode_small 50) []) ''A1''
   \<and> reveal_of acceptAll (run acceptAll deployed bidding)
        (at 1 21, DecryptBid ''A1'' (abi_encode_small 50) []) ''A1'' = [(1, 50)]"
proof -
  let ?s = "run acceptAll deployed bidding"
  let ?tx = "(at 1 21, DecryptBid ''A1'' (abi_encode_small 50) [])"
  have v: "highestBidAmount (auctions ?s ''A1'') = 0" "highestBidder (auctions ?s ''A1'') = 0"
    "highestBidAmount (auctions (step acceptAll ?s ?tx) ''A1'') = 50"
    "highestBidder (auctions (step acceptAll ?s ?tx) ''A1'') = 1"
    by (simp_all add: scenario_defs op_defs)
  show ?thesis
    using v highest_never_regresses [where fhe = acceptAll and txs = bidding and tx = ?tx
        and i = "''A1''", OF refl refl]
    by simp
qed

section \<open>The list of bidders\<close>

lemma step_bidders:
  "bidders (auctions (step fhe s tx) i) = bidders (auctions s i) @ place_of fhe s tx i"
  by (cases tx, cases "snd tx")
    (auto simp: step_def place_of_def op_defs Let_def split: if_splits option.splits sum.splits)

lemma run_bidders:
  "bidders (auctions (run fhe s txs) i) = bidders (auctions s i) @ placed fhe s txs i"
  by (induction txs arbitrary: s) (simp_all add: step_bidders)

text \<open>
  Claim C9. In every state the contract reaches, the list of bidders of every auction is
  the list of the callers of the successful \<open>placeBid\<close> transactions on that auction, in
  the order of the transactions; no address occurs twice in it, and its elements are
  exactly the addresses with a stored bid in the auction. Every transaction preserves the
  correspondence and appends to the list at most the bidder it has stored.
\<close>

theorem bidders_list_is_bid_history:
  "bidders (auctions (run fhe deployed txs) i) = placed fhe deployed txs i
   \<and> distinct (bidders (auctions (run fhe deployed txs) i))
   \<and> set (bidders (auctions (run fhe deployed txs) i)) = {a. hasBid (run fhe deployed txs) i a}
   \<and> (bidders_ok s \<longrightarrow> bidders_ok (step fhe s tx))
   \<and> bidders (auctions (step fhe s tx) i) = bidders (auctions s i) @ place_of fhe s tx i"
proof -
  have "bidders_ok (run fhe deployed txs)"
    by (simp add: bidders_ok_run bidders_ok_deployed)
  then have "distinct (bidders (auctions (run fhe deployed txs) i))"
    "set (bidders (auctions (run fhe deployed txs) i)) = {a. hasBid (run fhe deployed txs) i a}"
    by (simp_all add: bidders_ok_def)
  moreover have "bidders (auctions (run fhe deployed txs) i) = placed fhe deployed txs i"
    using run_bidders [of fhe deployed txs i] by (simp add: deployed_def zeroAuction_def)
  ultimately show ?thesis
    by (simp add: bidders_ok_step step_bidders)
qed

theorem bidders_list_is_bid_history_witness:
  "bidders (auctions (run acceptAll deployed settled) ''A1'') = [1, 2]
   \<and> placed acceptAll deployed settled ''A1'' = [1, 2]
   \<and> bidders_ok deployed
   \<and> bidders_ok (step acceptAll deployed (at 9 5, CreateAuction ''A1'' ''nft'' 10 20))
   \<and> place_of acceptAll (run acceptAll deployed bidding) (at 3 13, PlaceBid ''A1'' 103 []) ''A1'' = [3]
   \<and> bidders (auctions (step acceptAll (run acceptAll deployed bidding)
        (at 3 13, PlaceBid ''A1'' 103 [])) ''A1'') = [1, 2, 3]"
proof -
  have p: "placed acceptAll deployed settled ''A1'' = [1, 2]"
    by (simp add: place_of_def scenario_defs op_defs)
  have q: "place_of acceptAll (run acceptAll deployed bidding) (at 3 13, PlaceBid ''A1'' 103 []) ''A1'' = [3]"
    by (simp add: place_of_def scenario_defs op_defs)
  have b: "bidders (auctions (run acceptAll deployed bidding) ''A1'') = [1, 2]"
    by (simp add: scenario_defs op_defs)
  show ?thesis
    using p q b bidders_ok_deployed
      bidders_list_is_bid_history [of acceptAll settled "''A1''" deployed
        "(at 9 5, CreateAuction ''A1'' ''nft'' 10 20)"]
      bidders_list_is_bid_history [of acceptAll settled "''A1''" "run acceptAll deployed bidding"
        "(at 3 13, PlaceBid ''A1'' 103 [])"]
    by simp
qed

section \<open>Reading a bid that was never placed\<close>

text \<open>
  Claim C8, amended. For an existing auction of a state the contract reaches and an
  address with no stored bid in it, \<open>getBid\<close> does not fail and returns the zero handle
  and the zero timestamp. The decrypted flag is false and the amount 0 unless a reveal by
  that address was accepted; no such reveal is accepted when the verifier rejects the
  openings of the zero handle.
\<close>

theorem getBid_without_bid:
  assumes "s = run fhe deployed txs" and "auctionExists s i" and "\<not> hasBid s i a"
  shows "getBid s i a = Inr (0, 0, isDecrypted (bids (auctions s i) a),
                             decryptedBidAmount (bids (auctions s i) a))
       \<and> (\<not> isDecrypted (bids (auctions s i) a) \<longrightarrow> getBid s i a = Inr (0, 0, False, 0))
       \<and> (rejectsZeroHandle fhe \<longrightarrow> getBid s i a = Inr (0, 0, False, 0))"
proof -
  have "slot_ok s"
    using assms(1) by (simp add: slot_ok_run slot_ok_deployed)
  with assms(3) have z: "timestamp (bids (auctions s i) a) = 0"
    "\<not> isDecrypted (bids (auctions s i) a) \<longrightarrow> decryptedBidAmount (bids (auctions s i) a) = 0"
    by (simp_all add: slot_ok_def)
  have u: "rejectsZeroHandle fhe \<longrightarrow> \<not> isDecrypted (bids (auctions s i) a)"
    using assms(1,3) unmarked_reachable [of fhe txs] by (auto simp: unmarked_ok_def)
  from assms(3) have h: "encryptedBidAmount (bids (auctions s i) a) = 0"
    by (simp add: hasBid_def)
  from assms(2) have g: "getBid s i a = Inr (encryptedBidAmount (bids (auctions s i) a),
      timestamp (bids (auctions s i) a), isDecrypted (bids (auctions s i) a),
      decryptedBidAmount (bids (auctions s i) a))"
    by (simp add: getBid_def auctionExists_def Let_def)
  show ?thesis
    using g h z u by auto
qed

theorem getBid_without_bid_witness:
  "auctionExists (run strictFHE deployed stray_reveal) ''A1''
   \<and> \<not> hasBid (run strictFHE deployed stray_reveal) ''A1'' 7
   \<and> rejectsZeroHandle strictFHE
   \<and> getBid (run strictFHE deployed stray_reveal) ''A1'' 7 = Inr (0, 0, False, 0)"
proof -
  let ?s = "run strictFHE deployed stray_reveal"
  have h: "auctionExists ?s ''A1''" "\<not> hasBid ?s ''A1'' 7"
    by (simp_all add: stray_reveal_def scenario_defs op_defs)
  have r: "rejectsZeroHandle strictFHE"
    by (simp add: rejectsZeroHandle_def strictFHE_def toBytes32_def)
  show ?thesis
    using h r getBid_without_bid [OF refl h] by blast
qed

theorem getBid_without_bid_counterexample:
  "auctionExists (run acceptAll deployed stray_reveal) ''A1''
   \<and> \<not> hasBid (run acceptAll deployed stray_reveal) ''A1'' 7
   \<and> getBid (run acceptAll deployed stray_reveal) ''A1'' 7 = Inr (0, 0, True, 5)
   \<and> getBid (run acceptAll deployed stray_reveal) ''A1'' 7 \<noteq> Inr (0, 0, False, 0)"
  by (simp add: stray_reveal_def getBid_def scenario_defs op_defs)

section \<open>The highest bid after a sequence of reveals\<close>

lemma step_tracker:
  assumes "fresh_ok s"
  shows "(highestBidAmount (auctions (step fhe s tx) i), highestBidder (auctions (step fhe s tx) i))
       = tracker (highestBidAmount (auctions s i), highestBidder (auctions s i)) (reveal_of fhe s tx i)"
  using assms
  by (cases tx, cases "snd tx")
    (auto simp: fresh_ok_def tracker_def raise_highest_def reveal_of_def step_def op_defs
          auctionExists_def Let_def split: if_splits option.splits sum.splits)

lemma tracker_append: "tracker hi (rs @ rs') = tracker (tracker hi rs) rs'"
  by (simp add: tracker_def)

lemma run_tracker:
  "fresh_ok s \<Longrightarrow>
     (highestBidAmount (auctions (run fhe s txs) i), highestBidder (auctions (run fhe s txs) i))
       = tracker (highestBidAmount (auctions s i), highestBidder (auctions s i)) (reveals fhe s txs i)"
proof (induction txs arbitrary: s)
  case Nil
  then show ?case by (simp add: tracker_def)
next
  case (Cons tx txs)
  have "fresh_ok (step fhe s tx)"
    using Cons.prems by (rule fresh_ok_step)
  from Cons.IH [OF this] step_tracker [OF Cons.prems, of fhe tx i]
  show ?case by (simp add: tracker_append)
qed

lemma maxReveal_Cons: "maxReveal (r # rs) = max (snd r) (maxReveal rs)"
  by (cases "rs = []") (simp_all add: maxReveal_def max_def)

lemma firstWith_Cons:
  "firstWith (r # rs) m = (if snd r = m then Some (fst r) else firstWith rs m)"
  by (simp add: firstWith_def)

lemma tracker_Cons: "tracker hi (r # rs) = tracker (raise_highest hi r) rs"
  by (simp add: tracker_def)

lemma tracker_max:
  "fst (tracker (m, w) rs) = max m (maxReveal rs)
   \<and> (m < maxReveal rs \<longrightarrow> firstWith rs (maxReveal rs) = Some (snd (tracker (m, w) rs)))
   \<and> (maxReveal rs \<le> m \<longrightarrow> snd (tracker (m, w) rs) = w)"
proof (induction rs arbitrary: m w)
  case Nil
  then show ?case by (simp add: tracker_def maxReveal_def max_def)
next
  case (Cons r rs)
  obtain x v where r: "r = (x, v)" by (cases r)
  show ?case
  proof (cases "m < v")
    case True
    then have t: "tracker (m, w) ((x, v) # rs) = tracker (v, x) rs"
      by (simp add: tracker_Cons raise_highest_def)
    from Cons.IH [of v x] True show ?thesis
      unfolding r t maxReveal_Cons firstWith_Cons
      by (auto simp: max_def)
  next
    case False
    then have t: "tracker (m, w) ((x, v) # rs) = tracker (m, w) rs"
      by (simp add: tracker_Cons raise_highest_def)
    from Cons.IH [of m w] False show ?thesis
      unfolding r t maxReveal_Cons firstWith_Cons
      by (auto simp: max_def)
  qed
qed

text \<open>
  Claim C1, amended. In every state the contract reaches, with \<open>rs\<close> the successful
  reveals on an auction in the order of the transactions, the highest amount of the
  auction is the largest revealed amount (0 when nothing was revealed). When this maximum
  is above 0, the highest bidder is the address of the first reveal with that amount, so a
  later reveal of the same amount does not displace it. When every revealed amount is 0
  the auction has no highest bidder: the comparison of line 112 is strict and starts
  from 0.
\<close>

theorem highest_is_max_reveal:
  assumes "s = run fhe deployed txs" and "rs = reveals fhe deployed txs i"
  shows "highestBidAmount (auctions s i) = maxReveal rs
       \<and> (maxReveal rs \<noteq> 0 \<longrightarrow>
            firstWith rs (maxReveal rs) = Some (highestBidder (auctions s i)))
       \<and> (maxReveal rs = 0 \<longrightarrow> highestBidder (auctions s i) = 0)"
proof -
  have "(highestBidAmount (auctions s i), highestBidder (auctions s i)) = tracker (0, 0) rs"
    using run_tracker [OF fresh_ok_deployed, of fhe txs i] assms
    by (simp add: deployed_def zeroAuction_def)
  then have a: "highestBidAmount (auctions s i) = fst (tracker (0, 0) rs)"
    and b: "highestBidder (auctions s i) = snd (tracker (0, 0) rs)"
    by (simp_all add: prod_eq_iff)
  have nz: "maxReveal rs \<noteq> 0 \<longrightarrow> 0 < maxReveal rs"
    by (simp add: word_neq_0_conv)
  from tracker_max [of 0 0 rs] a b nz show ?thesis
    by (auto simp: max_def)
qed

theorem highest_is_max_reveal_witness:
  "reveals acceptAll deployed tied_reveals ''A1'' = [(2, 50), (1, 50)]
   \<and> maxReveal [(2, 50), (1, 50)] = 50
   \<and> firstWith [(2, 50), (1, 50)] 50 = Some 2
   \<and> highestBidAmount (auctions (run acceptAll deployed tied_reveals) ''A1'') = 50
   \<and> highestBidder (auctions (run acceptAll deployed tied_reveals) ''A1'') = 2
   \<and> maxReveal (reveals acceptAll deployed bidding ''A1'') = 0
   \<and> highestBidder (auctions (run acceptAll deployed bidding) ''A1'') = 0"
proof -
  have r: "reveals acceptAll deployed tied_reveals ''A1'' = [(2, 50), (1, 50)]"
    by (simp add: tied_reveals_def reveal_of_def scenario_defs op_defs)
  have m: "maxReveal [(2, 50), (1, 50)] = 50"
    by (simp add: maxReveal_def)
  have f: "firstWith [(2, 50), (1, 50)] 50 = Some 2"
    by (simp add: firstWith_def)
  have z: "maxReveal (reveals acceptAll deployed bidding ''A1'') = 0"
    by (simp add: maxReveal_def reveal_of_def scenario_defs op_defs)
  show ?thesis
    using r m f z
      highest_is_max_reveal [where fhe = acceptAll and txs = tied_reveals
        and i = "''A1''", OF refl refl]
      highest_is_max_reveal [where fhe = acceptAll and txs = bidding
        and i = "''A1''", OF refl refl]
    by simp
qed

theorem highest_is_max_reveal_counterexample:
  "reveals acceptAll deployed zero_reveal ''A1'' = [(1, 0)]
   \<and> highestBidAmount (auctions (run acceptAll deployed zero_reveal) ''A1'') = maxReveal [(1, 0)]
   \<and> firstWith [(1, 0)] (maxReveal [(1, 0)]) = Some 1
   \<and> highestBidder (auctions (run acceptAll deployed zero_reveal) ''A1'') = 0
   \<and> firstWith (reveals acceptAll deployed zero_reveal ''A1'')
        (maxReveal (reveals acceptAll deployed zero_reveal ''A1''))
       \<noteq> Some (highestBidder (auctions (run acceptAll deployed zero_reveal) ''A1''))"
  by (simp add: zero_reveal_def reveal_of_def maxReveal_def firstWith_def scenario_defs op_defs)

end
